theory Spec2Isabelle
  imports Complex_Main
begin

section \<open>Data model\<close>

text \<open>
  One row of the \<open>Sacramento\<close> table. Only the columns that the queries of
  \<open>realEstateMCP.py\<close> mention are kept; the other descriptive columns play no part in
  any predicate. Python integers are unbounded, hence \<open>int\<close>; coordinates are Python and
  SQLite floats, read here as reals.
\<close>

record listing =
  city :: string
  state :: string
  price :: int
  beds :: int
  latitude :: real
  longitude :: real

text \<open>A value bound to a \<open>?\<close> placeholder.\<close>

datatype sql_value = SInt int | SText string | SReal real

subsection \<open>Python truthiness of the optional arguments\<close>

text \<open>
  The source tests its optional arguments with \<open>if city:\<close>, \<open>if min_beds:\<close> and
  \<open>if reference_lat and reference_lon:\<close>. In Python \<open>None\<close>, the empty string,
  the integer \<open>0\<close> and the float \<open>0.0\<close> are all false.
\<close>

definition truthy_str :: "string option \<Rightarrow> bool" where
  "truthy_str v = (case v of None \<Rightarrow> False | Some s \<Rightarrow> s \<noteq> [])"

definition truthy_int :: "int option \<Rightarrow> bool" where
  "truthy_int v = (case v of None \<Rightarrow> False | Some n \<Rightarrow> n \<noteq> 0)"

text \<open>
  What the specification calls a field that is present: one that was supplied at all.
  This definition follows the words of the specification, not the source.
\<close>

definition spec_supplied :: "'a option \<Rightarrow> nat" where
  "spec_supplied v = (case v of None \<Rightarrow> 0 | Some _ \<Rightarrow> 1)"

section \<open>Building the parameterised queries\<close>

text \<open>Python's \<open>sep.join(xs)\<close>.\<close>

fun join_str :: "string \<Rightarrow> string list \<Rightarrow> string" where
  "join_str sep [] = []"
| "join_str sep [x] = x"
| "join_str sep (x # y # ys) = x @ sep @ join_str sep (y # ys)"

text \<open>
  The pair of lists \<open>conditions\<close> and \<open>params\<close> that the source grows side by side.
\<close>

type_synonym filters = "string list \<times> sql_value list"

text \<open>\<open>if v: conditions.append(cond); params.append(v)\<close> for a string argument.\<close>

definition add_str_filter :: "string \<Rightarrow> string option \<Rightarrow> filters \<Rightarrow> filters" where
  "add_str_filter cond v q =
     (case v of
        None \<Rightarrow> q
      | Some s \<Rightarrow> if s \<noteq> [] then (fst q @ [cond], snd q @ [SText s]) else q)"

text \<open>The same for an integer argument.\<close>

definition add_int_filter :: "string \<Rightarrow> int option \<Rightarrow> filters \<Rightarrow> filters" where
  "add_int_filter cond v q =
     (case v of
        None \<Rightarrow> q
      | Some n \<Rightarrow> if n \<noteq> 0 then (fst q @ [cond], snd q @ [SInt n]) else q)"

text \<open>\<open>if conditions: query += " WHERE " + " AND ".join(conditions)\<close>\<close>

definition add_where :: "string \<Rightarrow> string list \<Rightarrow> string" where
  "add_where query conditions =
     (if conditions \<noteq> [] then query @ '' WHERE '' @ join_str '' AND '' conditions
      else query)"

text \<open>Lines 72 to 90 of \<open>query_listings\<close>: the four optional filters, in source order.\<close>

definition query_listings_filters ::
  "string option \<Rightarrow> string option \<Rightarrow> int option \<Rightarrow> int option \<Rightarrow> filters" where
  "query_listings_filters a_city a_state min_beds max_price =
     add_int_filter ''price <= ?'' max_price
       (add_int_filter ''beds >= ?'' min_beds
         (add_str_filter ''state = ?'' a_state
           (add_str_filter ''city = ?'' a_city ([], []))))"

text \<open>The query text and the bound parameters handed to \<open>pd.read_sql_query\<close>.\<close>

definition query_listings_sql ::
  "string option \<Rightarrow> string option \<Rightarrow> int option \<Rightarrow> int option
     \<Rightarrow> string \<times> sql_value list" where
  "query_listings_sql a_city a_state min_beds max_price =
     (let q = query_listings_filters a_city a_state min_beds max_price
      in (add_where ''SELECT * FROM Sacramento'' (fst q), snd q))"

text \<open>Lines 166 to 183 of \<open>calculate_average_price\<close>; beds are compared by equality.\<close>

definition calculate_average_price_filters ::
  "string option \<Rightarrow> string option \<Rightarrow> int option \<Rightarrow> filters" where
  "calculate_average_price_filters a_city a_state a_beds =
     add_int_filter ''beds = ?'' a_beds
       (add_str_filter ''state = ?'' a_state
         (add_str_filter ''city = ?'' a_city ([], [])))"

definition calculate_average_price_sql ::
  "string option \<Rightarrow> string option \<Rightarrow> int option \<Rightarrow> string \<times> sql_value list" where
  "calculate_average_price_sql a_city a_state a_beds =
     (let q = calculate_average_price_filters a_city a_state a_beds
      in (add_where
            ''SELECT AVG(price) as avg_price, COUNT(*) as total_listings FROM Sacramento''
            (fst q),
          snd q))"

text \<open>The number of \<open>?\<close> placeholders of a query text.\<close>

definition placeholders :: "string \<Rightarrow> nat" where
  "placeholders q = length (filter (\<lambda>c. c = CHR ''?'') q)"

section \<open>The storage engine\<close>

text \<open>
  SQLite is not part of the repository. The model below gives the meaning of exactly the
  predicates that the source writes into its \<open>WHERE\<close> clauses, on values of the types
  that the Python signatures declare. Columns are taken to hold values, not \<open>NULL\<close>.
\<close>

definition sql_num :: "sql_value \<Rightarrow> real option" where
  "sql_num v = (case v of SInt n \<Rightarrow> Some (real_of_int n) | SReal x \<Rightarrow> Some x | SText _ \<Rightarrow> None)"

text \<open>Numeric \<open><=\<close>. A text operand never meets a numeric column in these queries.\<close>

definition sql_le :: "sql_value \<Rightarrow> sql_value \<Rightarrow> bool" where
  "sql_le a b =
     (case sql_num a of
        None \<Rightarrow> False
      | Some x \<Rightarrow> (case sql_num b of None \<Rightarrow> False | Some y \<Rightarrow> x \<le> y))"

definition sql_eq :: "sql_value \<Rightarrow> sql_value \<Rightarrow> bool" where
  "sql_eq a b =
     (case sql_num a of
        None \<Rightarrow> (case sql_num b of None \<Rightarrow> a = b | Some _ \<Rightarrow> False)
      | Some x \<Rightarrow> (case sql_num b of None \<Rightarrow> False | Some y \<Rightarrow> x = y))"

text \<open>
  One condition text of the source, with the value bound to its placeholder, on a row.
\<close>

definition sql_holds :: "string \<Rightarrow> sql_value \<Rightarrow> listing \<Rightarrow> bool" where
  "sql_holds cond v r =
     (if cond = ''city = ?'' then sql_eq (SText (city r)) v
      else if cond = ''state = ?'' then sql_eq (SText (state r)) v
      else if cond = ''beds >= ?'' then sql_le v (SInt (beds r))
      else if cond = ''price <= ?'' then sql_le (SInt (price r)) v
      else if cond = ''beds = ?'' then sql_eq (SInt (beds r)) v
      else False)"

text \<open>
  \<open>SELECT * FROM Sacramento WHERE c1 AND ... AND cn\<close> with the parameters bound in
  order; with no condition every row is selected. Rows come back in table order.
\<close>

definition select_where :: "string list \<Rightarrow> sql_value list \<Rightarrow> listing list \<Rightarrow> listing list" where
  "select_where conditions params tbl =
     filter (\<lambda>r. list_all (\<lambda>cv. sql_holds (fst cv) (snd cv) r) (zip conditions params)) tbl"

section \<open>query\_listings\<close>

text \<open>
  The rows of the data frame that \<open>query_listings\<close> renders. The rendering itself
  (\<open>df.to_string\<close>) belongs to pandas and is not modelled.
\<close>

definition query_listings ::
  "listing list \<Rightarrow> string option \<Rightarrow> string option \<Rightarrow> int option \<Rightarrow> int option
     \<Rightarrow> listing list" where
  "query_listings tbl a_city a_state min_beds max_price =
     (let q = query_listings_filters a_city a_state min_beds max_price
      in select_where (fst q) (snd q) tbl)"

section \<open>calculate\_average\_price\<close>



record 'f price_stats =
  average_price :: "'f option"
  total_listings :: nat




section \<open>find\_best\_deals\<close>

definition newline :: string where
  "newline = [CHR 0x0A]"

text \<open>The two triple-quoted query texts of the source, line by line.\<close>

definition simple_deals_text :: string where
  "simple_deals_text =
     join_str newline
       ['''',
        ''        SELECT '',
        ''            * FROM Sacramento'',
        ''        WHERE '',
        ''            price <= ? AND '',
        ''            beds >= ?'',
        ''        '']"

definition distance_deals_text :: string where
  "distance_deals_text =
     join_str newline
       ['''',
        ''            SELECT '',
        ''                *,'',
        ''                (6371 * acos(cos(radians(?)) * cos(radians(latitude)) * '',
        ''                 cos(radians(longitude) - radians(?)) + '',
        ''                 sin(radians(?)) * sin(radians(latitude)))) AS distance'',
        ''            FROM Sacramento'',
        ''            WHERE '',
        ''                price <= ? AND '',
        ''                beds >= ? AND'',
        ''                distance <= ?'',
        ''            '']"

text \<open>
  Lines 219 to 251: the text and the parameters handed to \<open>pd.read_sql_query\<close>.
  Python's \<open>a and b\<close> is false as soon as \<open>a\<close> is false, and otherwise as \<open>b\<close> is.
\<close>

definition find_best_deals_sql ::
  "int \<Rightarrow> int \<Rightarrow> real \<Rightarrow> real option \<Rightarrow> real option \<Rightarrow> string \<times> sql_value list" where
  "find_best_deals_sql max_price min_beds max_distance reference_lat reference_lon =
     (let simple = (simple_deals_text, [SInt max_price, SInt min_beds]);
          chosen =
            (case reference_lat of
               None \<Rightarrow> simple
             | Some la \<Rightarrow>
                 if la \<noteq> 0 then
                   (case reference_lon of
                      None \<Rightarrow> simple
                    | Some lo \<Rightarrow>
                        if lo \<noteq> 0 then
                          (distance_deals_text,
                           [SReal la, SReal lo, SReal la, SInt max_price, SInt min_beds,
                            SReal max_distance])
                        else simple)
                 else simple)
      in (fst chosen @ '' ORDER BY price ASC LIMIT 10'', snd chosen))"

subsection \<open>What the engine computes for the two texts\<close>

definition radians :: "real \<Rightarrow> real" where
  "radians x = x * pi / 180"

text \<open>SQLite's \<open>acos\<close> yields \<open>NULL\<close> outside \<open>[-1, 1]\<close>.\<close>

definition sql_acos :: "real \<Rightarrow> real option" where
  "sql_acos x = (if - 1 \<le> x \<and> x \<le> 1 then Some (arccos x) else None)"

text \<open>
  The derived column \<open>distance\<close>, with the three placeholders of the expression in the
  order of the text. The arithmetic is that of the reals: the rounding of the engine's
  doubles is not modelled. In doubles the argument of \<open>acos\<close> can come out above 1, as
  it does for a listing at the reference point itself; the engine then yields \<open>NULL\<close>
  and drops the row, which the reading over the reals does not show.
\<close>

definition distance_column :: "real \<Rightarrow> real \<Rightarrow> real \<Rightarrow> listing \<Rightarrow> real option" where
  "distance_column p1 p2 p3 r =
     (case sql_acos
             (cos (radians p1) * cos (radians (latitude r)) *
              cos (radians (longitude r) - radians p2) +
              sin (radians p3) * sin (radians (latitude r))) of
        None \<Rightarrow> None
      | Some a \<Rightarrow> Some (6371 * a))"

text \<open>
  A result row: the listing and, in the second query shape only, its \<open>distance\<close> column.
\<close>

type_synonym deal = "listing \<times> real option"

definition select_simple_deals :: "sql_value \<Rightarrow> sql_value \<Rightarrow> listing list \<Rightarrow> deal list" where
  "select_simple_deals p_price p_beds tbl =
     map (\<lambda>r. (r, None))
       (filter (\<lambda>r. sql_holds ''price <= ?'' p_price r \<and> sql_holds ''beds >= ?'' p_beds r) tbl)"

text \<open>A comparison with \<open>NULL\<close> is not true, so a row without a distance is dropped.\<close>

definition select_distance_deals ::
  "real \<Rightarrow> real \<Rightarrow> real \<Rightarrow> sql_value \<Rightarrow> sql_value \<Rightarrow> real \<Rightarrow> listing list \<Rightarrow> deal list" where
  "select_distance_deals p1 p2 p3 p_price p_beds p_dist tbl =
     filter (\<lambda>d. case snd d of None \<Rightarrow> False | Some x \<Rightarrow> x \<le> p_dist)
       (map (\<lambda>r. (r, distance_column p1 p2 p3 r))
         (filter (\<lambda>r. sql_holds ''price <= ?'' p_price r \<and> sql_holds ''beds >= ?'' p_beds r)
            tbl))"

text \<open>
  \<open>ORDER BY price ASC LIMIT 10\<close>. SQL leaves the order of rows of equal price open; the
  model keeps them in table order.
\<close>

definition order_by_price_limit :: "deal list \<Rightarrow> deal list" where
  "order_by_price_limit ds = take 10 (sort_key (\<lambda>d. price (fst d)) ds)"

text \<open>The rows of the data frame that \<open>find_best_deals\<close> renders.\<close>

definition find_best_deals ::
  "listing list \<Rightarrow> int \<Rightarrow> int \<Rightarrow> real \<Rightarrow> real option \<Rightarrow> real option \<Rightarrow> deal list" where
  "find_best_deals tbl max_price min_beds max_distance reference_lat reference_lon =
     (let simple = select_simple_deals (SInt max_price) (SInt min_beds) tbl;
          chosen =
            (case reference_lat of
               None \<Rightarrow> simple
             | Some la \<Rightarrow>
                 if la \<noteq> 0 then
                   (case reference_lon of
                      None \<Rightarrow> simple
                    | Some lo \<Rightarrow>
                        if lo \<noteq> 0 then
                          select_distance_deals la lo la (SInt max_price) (SInt min_beds)
                            max_distance tbl
                        else simple)
                 else simple)
      in order_by_price_limit chosen)"

section \<open>describe\_columns and get\_database\_schema\<close>

text \<open>One row of \<open>PRAGMA table_info\<close>: \<open>column[0]\<close> to \<open>column[5]\<close>.\<close>

record column_info =
  cid :: int
  name :: string
  type :: string
  notnull :: int
  dflt_value :: "string option"
  pk :: int

datatype db_error = OperationalError | ProgrammingError

text \<open>
  The open connection, as far as these two functions use it: the names that
  \<open>SELECT name FROM sqlite_master WHERE type='table';\<close> returns, and the answer of
  \<open>cursor.execute\<close> followed by \<open>fetchall\<close> to a statement text. The engine sees the
  text only.
\<close>

record connection =
  master_tables :: "string list"
  execute_fetchall :: "string \<Rightarrow> db_error + column_info list"

text \<open>\<open>f"PRAGMA table_info({table_name});"\<close>\<close>

definition table_info_sql :: "string \<Rightarrow> string" where
  "table_info_sql table_name = ''PRAGMA table_info('' @ table_name @ '');''"

text \<open>Lines 136 to 141: the four lines written for one column.\<close>

definition column_description :: "column_info \<Rightarrow> string" where
  "column_description column =
     ''  - '' @ name column @ '' ('' @ type column @ '')'' @ newline @
     ''    Nullable: '' @ (if notnull column = 0 then ''Yes'' else ''No'') @ newline @
     ''    Default Value: '' @
       (case dflt_value column of
          None \<Rightarrow> ''None''
        | Some d \<Rightarrow> if d \<noteq> [] then d else ''None'') @ newline @
     ''    Primary Key: '' @ (if pk column = 1 then ''Yes'' else ''No'') @ newline"

text \<open>
  The loop over \<open>tables\<close> of \<open>describe_columns\<close>. The source catches nothing, so an
  exception of the engine ends the call.
\<close>

fun describe_tables :: "connection \<Rightarrow> string list \<Rightarrow> string \<Rightarrow> db_error + string" where
  "describe_tables conn [] description = Inr description"
| "describe_tables conn (table_name # tables) description =
     (case execute_fetchall conn (table_info_sql table_name) of
        Inl e \<Rightarrow> Inl e
      | Inr columns \<Rightarrow>
          describe_tables conn tables
            (description @ newline @ ''Table: '' @ table_name @ newline @
             concat (map column_description columns)))"

text \<open>\<open>if not table_name\<close> holds of \<open>None\<close> and of the empty string.\<close>

definition describe_columns :: "connection \<Rightarrow> string option \<Rightarrow> db_error + string" where
  "describe_columns conn table_name =
     (let tables =
            (case table_name of
               None \<Rightarrow> master_tables conn
             | Some t \<Rightarrow> if t = [] then master_tables conn else [t])
      in describe_tables conn tables (''Column Descriptions:'' @ newline))"

text \<open>Line 45 of \<open>get_database_schema\<close>.\<close>

definition schema_column :: "column_info \<Rightarrow> string" where
  "schema_column column = ''  '' @ name column @ '' ('' @ type column @ '')'' @ newline"

fun schema_tables :: "connection \<Rightarrow> string list \<Rightarrow> string \<Rightarrow> db_error + string" where
  "schema_tables conn [] schema_description = Inr schema_description"
| "schema_tables conn (table_name # tables) schema_description =
     (case execute_fetchall conn (table_info_sql table_name) of
        Inl e \<Rightarrow> Inl e
      | Inr columns \<Rightarrow>
          schema_tables conn tables
            (schema_description @ newline @ ''Table: '' @ table_name @ newline @
             concat (map schema_column columns)))"

definition get_database_schema :: "connection \<Rightarrow> db_error + string" where
  "get_database_schema conn =
     schema_tables conn (master_tables conn) (''Database Schema:'' @ newline)"

subsection \<open>SQLite's answer to the catalog statements\<close>

text \<open>
  A catalog lists every object that \<open>PRAGMA table_info\<close> resolves by name, each with its
  columns: the tables and views of the database, and the virtual tables that the engine
  provides by itself, such as \<open>json_each\<close>. SQLite compares such names without regard
  to the case of ASCII letters.
\<close>

type_synonym catalog = "(string \<times> column_info list) list"

definition ascii_upper_letters :: string where
  "ascii_upper_letters = ''ABCDEFGHIJKLMNOPQRSTUVWXYZ''"

definition ascii_lower_letters :: string where
  "ascii_lower_letters = ''abcdefghijklmnopqrstuvwxyz''"

definition ascii_digits :: string where
  "ascii_digits = ''0123456789''"

definition ascii_lower :: "char \<Rightarrow> char" where
  "ascii_lower c =
     (case map_of (zip ascii_upper_letters ascii_lower_letters) c of
        None \<Rightarrow> c
      | Some l \<Rightarrow> l)"

definition lookup_table :: "catalog \<Rightarrow> string \<Rightarrow> (string \<times> column_info list) option" where
  "lookup_table cat t =
     find (\<lambda>entry. map ascii_lower (fst entry) = map ascii_lower t) cat"

text \<open>The keywords of SQLite, which its parser does not all accept as a name.\<close>

definition sqlite_keywords :: "string list" where
  "sqlite_keywords =
     [''abort'', ''action'', ''add'', ''after'', ''all'', ''alter'', ''always'', ''analyze'',
      ''and'', ''as'', ''asc'', ''attach'', ''autoincrement'', ''before'', ''begin'',
      ''between'', ''by'', ''cascade'', ''case'', ''cast'', ''check'', ''collate'', ''column'',
      ''commit'', ''conflict'', ''constraint'', ''create'', ''cross'', ''current'',
      ''current_date'', ''current_time'', ''current_timestamp'', ''database'', ''default'',
      ''deferrable'', ''deferred'', ''delete'', ''desc'', ''detach'', ''distinct'', ''do'',
      ''drop'', ''each'', ''else'', ''end'', ''escape'', ''except'', ''exclude'',
      ''exclusive'', ''exists'', ''explain'', ''fail'', ''filter'', ''first'', ''following'',
      ''for'', ''foreign'', ''from'', ''full'', ''generated'', ''glob'', ''group'', ''groups'',
      ''having'', ''if'', ''ignore'', ''immediate'', ''in'', ''index'', ''indexed'',
      ''initially'', ''inner'', ''insert'', ''instead'', ''intersect'', ''into'', ''is'',
      ''isnull'', ''join'', ''key'', ''last'', ''left'', ''like'', ''limit'', ''match'',
      ''materialized'', ''natural'', ''no'', ''not'', ''nothing'', ''notnull'', ''null'',
      ''nulls'', ''of'', ''offset'', ''on'', ''or'', ''order'', ''others'', ''outer'',
      ''over'', ''partition'', ''plan'', ''pragma'', ''preceding'', ''primary'', ''query'',
      ''raise'', ''range'', ''recursive'', ''references'', ''regexp'', ''reindex'',
      ''release'', ''rename'', ''replace'', ''restrict'', ''returning'', ''right'',
      ''rollback'', ''row'', ''rows'', ''savepoint'', ''select'', ''set'', ''table'', ''temp'',
      ''temporary'', ''then'', ''ties'', ''to'', ''transaction'', ''trigger'', ''unbounded'',
      ''union'', ''unique'', ''update'', ''using'', ''vacuum'', ''values'', ''view'',
      ''virtual'', ''when'', ''where'', ''window'', ''with'', ''within'', ''without'']"

definition identifier_start :: "char \<Rightarrow> bool" where
  "identifier_start c =
     (c \<in> set ascii_upper_letters \<or> c \<in> set ascii_lower_letters \<or> c = CHR ''_'')"

definition identifier_char :: "char \<Rightarrow> bool" where
  "identifier_char c = (identifier_start c \<or> c \<in> set ascii_digits)"

definition has_prefix :: "string \<Rightarrow> string \<Rightarrow> bool" where
  "has_prefix p s = (take (length p) s = p)"

text \<open>
  A plain identifier: ASCII letters, digits and underscores, not starting with a digit,
  no keyword, and outside the name spaces \<open>sqlite_\<close> and \<open>pragma_\<close> in which the engine
  keeps tables of its own. Written into \<open>PRAGMA table_info(...)\<close> such a name is parsed
  as one name.
\<close>

definition plain_identifier :: "string \<Rightarrow> bool" where
  "plain_identifier t =
     (case t of
        [] \<Rightarrow> False
      | c # cs \<Rightarrow>
          identifier_start c \<and> list_all identifier_char cs \<and>
          map ascii_lower t \<notin> set sqlite_keywords \<and>
          \<not> has_prefix ''sqlite_'' (map ascii_lower t) \<and>
          \<not> has_prefix ''pragma_'' (map ascii_lower t))"

text \<open>
  The name between the parentheses of a statement, when the statement is
  \<open>PRAGMA table_info(t);\<close> for a plain identifier \<open>t\<close>.
\<close>

definition pragma_identifier :: "string \<Rightarrow> string option" where
  "pragma_identifier stmt =
     (let t = take (length stmt - 20) (drop 18 stmt)
      in if stmt = table_info_sql t \<and> plain_identifier t then Some t else None)"

text \<open>
  The database file behind \<open>get_db_connection\<close>: the names of its tables as
  \<open>sqlite_master\<close> lists them, its catalog, the rows of each table, and the answers of
  the engine to every statement that is not \<open>PRAGMA table_info\<close> of a plain identifier.
  Those answers (a syntax error for a name of two words, the columns of a quoted name,
  and so on) are not modelled: they are a field of the record, left open. Only the
  catalog is visible through the statements of \<open>describe_columns\<close>.
\<close>

record database =
  db_tables :: "string list"
  db_catalog :: catalog
  db_rows :: "string \<Rightarrow> listing list"
  db_other :: "string \<Rightarrow> db_error + column_info list"

text \<open>
  \<open>PRAGMA table_info\<close> of a plain identifier yields the columns of the object of that
  name, and no rows and no error when there is no such object.
\<close>

definition get_db_connection :: "database \<Rightarrow> connection" where
  "get_db_connection db =
     \<lparr>master_tables = db_tables db,
      execute_fetchall =
        (\<lambda>stmt. case pragma_identifier stmt of
                  None \<Rightarrow> db_other db stmt
                | Some t \<Rightarrow>
                    Inr (case lookup_table (db_catalog db) t of
                           None \<Rightarrow> []
                         | Some entry \<Rightarrow> snd entry))\<rparr>"

section \<open>Notions used to state the properties\<close>

text \<open>How many of the tests \<open>if v:\<close> succeed.\<close>

definition truthy_count :: "bool list \<Rightarrow> nat" where
  "truthy_count bs = length (filter id bs)"

text \<open>
  The conjunction of the filters of \<open>query_listings\<close> that are supplied with a value
  that Python takes as true, on one row.
\<close>

definition listing_matches ::
  "string option \<Rightarrow> string option \<Rightarrow> int option \<Rightarrow> int option \<Rightarrow> listing \<Rightarrow> bool" where
  "listing_matches a_city a_state min_beds max_price r =
     ((case a_city of None \<Rightarrow> True | Some x \<Rightarrow> if x \<noteq> [] then city r = x else True) \<and>
      (case a_state of None \<Rightarrow> True | Some x \<Rightarrow> if x \<noteq> [] then state r = x else True) \<and>
      (case min_beds of None \<Rightarrow> True | Some n \<Rightarrow> if n \<noteq> 0 then n \<le> beds r else True) \<and>
      (case max_price of None \<Rightarrow> True | Some n \<Rightarrow> if n \<noteq> 0 then price r \<le> n else True))"



text \<open>
  The haversine formula of the specification for the great-circle distance between two
  points given in degrees, on a sphere of radius 6371. This definition follows the words
  of the specification; the source computes \<open>distance_column\<close>.
\<close>

definition haversine_distance :: "real \<Rightarrow> real \<Rightarrow> real \<Rightarrow> real \<Rightarrow> real" where
  "haversine_distance lat1 lon1 lat2 lon2 =
     2 * 6371 *
     arcsin (sqrt ((sin ((radians lat2 - radians lat1) / 2))\<^sup>2 +
                   cos (radians lat1) * cos (radians lat2) *
                   (sin ((radians lon2 - radians lon1) / 2))\<^sup>2))"

subsection \<open>Fixtures\<close>

text \<open>
  The fixture of the specification's first example: a 3-bed listing at 480000 and a 4-bed
  listing at 520000, both in Sacramento.
\<close>

definition example_table :: "listing list" where
  "example_table =
     [\<lparr>city = ''Sacramento'', state = ''CA'', price = 480000, beds = 3,
       latitude = 38.58, longitude = -121.49\<rparr>,
      \<lparr>city = ''Sacramento'', state = ''CA'', price = 520000, beds = 4,
       latitude = 38.60, longitude = -121.45\<rparr>]"

definition sacramento_listing :: listing where
  "sacramento_listing =
     \<lparr>city = ''Sacramento'', state = ''CA'', price = 400000, beds = 3,
      latitude = 38.58, longitude = -121.49\<rparr>"

text \<open>
  The fixture of the specification's second example, seen from latitude 38.58 and
  longitude -121.49: a listing two miles (3.218688 km) due north at 400000 and a
  listing twenty miles (32.18688 km) due north at 300000.
\<close>

definition near_listing :: listing where
  "near_listing =
     \<lparr>city = ''Sacramento'', state = ''CA'', price = 400000, beds = 3,
      latitude = 38.58 + 3.218688 * 180 / (6371 * pi), longitude = -121.49\<rparr>"

definition far_listing :: listing where
  "far_listing =
     \<lparr>city = ''Sacramento'', state = ''CA'', price = 300000, beds = 3,
      latitude = 38.58 + 32.18688 * 180 / (6371 * pi), longitude = -121.49\<rparr>"

definition price_column :: column_info where
  "price_column =
     \<lparr>cid = 0, name = ''price'', type = ''INTEGER'', notnull = 0, dflt_value = None, pk = 0\<rparr>"

text \<open>
  A database whose only table, \<open>Sacramento\<close>, has one column and no rows. What the
  engine answers to statements outside the modelled fragment plays no part below.
\<close>

definition empty_database :: database where
  "empty_database =
     \<lparr>db_tables = [''Sacramento''],
      db_catalog = [(''Sacramento'', [price_column])],
      db_rows = (\<lambda>t. []),
      db_other = (\<lambda>stmt. Inl OperationalError)\<rparr>"

section \<open>Auxiliary facts\<close>

lemma add_str_filter_fst:
  "fst (add_str_filter cond v q) = fst q @ (if truthy_str v then [cond] else [])"
  by (simp add: add_str_filter_def truthy_str_def split: option.splits)

lemma add_int_filter_fst:
  "fst (add_int_filter cond v q) = fst q @ (if truthy_int v then [cond] else [])"
  by (simp add: add_int_filter_def truthy_int_def split: option.splits)

lemma add_str_filter_snd:
  "snd (add_str_filter cond v q) = snd q @ (if truthy_str v then [SText (the v)] else [])"
  by (simp add: add_str_filter_def truthy_str_def split: option.splits)

lemma add_int_filter_snd:
  "snd (add_int_filter cond v q) = snd q @ (if truthy_int v then [SInt (the v)] else [])"
  by (simp add: add_int_filter_def truthy_int_def split: option.splits)

lemma query_listings_conditions:
  "fst (query_listings_filters c s mb mp) =
     (if truthy_str c then [''city = ?''] else []) @
     (if truthy_str s then [''state = ?''] else []) @
     (if truthy_int mb then [''beds >= ?''] else []) @
     (if truthy_int mp then [''price <= ?''] else [])"
  by (simp add: query_listings_filters_def add_str_filter_fst add_int_filter_fst)

lemma query_listings_params:
  "snd (query_listings_filters c s mb mp) =
     (if truthy_str c then [SText (the c)] else []) @
     (if truthy_str s then [SText (the s)] else []) @
     (if truthy_int mb then [SInt (the mb)] else []) @
     (if truthy_int mp then [SInt (the mp)] else [])"
  by (simp add: query_listings_filters_def add_str_filter_snd add_int_filter_snd)

lemma average_price_conditions:
  "fst (calculate_average_price_filters c s b) =
     (if truthy_str c then [''city = ?''] else []) @
     (if truthy_str s then [''state = ?''] else []) @
     (if truthy_int b then [''beds = ?''] else [])"
  by (simp add: calculate_average_price_filters_def add_str_filter_fst add_int_filter_fst)

lemma average_price_params:
  "snd (calculate_average_price_filters c s b) =
     (if truthy_str c then [SText (the c)] else []) @
     (if truthy_str s then [SText (the s)] else []) @
     (if truthy_int b then [SInt (the b)] else [])"
  by (simp add: calculate_average_price_filters_def add_str_filter_snd add_int_filter_snd)

lemma placeholders_append: "placeholders (a @ b) = placeholders a + placeholders b"
  by (simp add: placeholders_def)

lemma placeholders_join:
  "placeholders sep = 0 \<Longrightarrow> placeholders (join_str sep cs) = sum_list (map placeholders cs)"
  by (induction sep cs rule: join_str.induct)
     (simp_all add: placeholders_append, simp add: placeholders_def)

lemma placeholders_of_texts:
  "placeholders ''city = ?'' = 1"
  "placeholders ''state = ?'' = 1"
  "placeholders ''beds >= ?'' = 1"
  "placeholders ''price <= ?'' = 1"
  "placeholders ''beds = ?'' = 1"
  "placeholders '' AND '' = 0"
  "placeholders '' WHERE '' = 0"
  "placeholders ''SELECT * FROM Sacramento'' = 0"
  "placeholders ''SELECT AVG(price) as avg_price, COUNT(*) as total_listings FROM Sacramento'' = 0"
  by (simp_all add: placeholders_def)

lemma placeholders_add_where:
  "placeholders (add_where q cs) = placeholders q + sum_list (map placeholders cs)"
proof (cases "cs = []")
  case True
  then show ?thesis by (simp add: add_where_def)
next
  case False
  have "placeholders (q @ '' WHERE '' @ join_str '' AND '' cs) =
        placeholders q + (placeholders '' WHERE '' + placeholders (join_str '' AND '' cs))"
    by (simp only: placeholders_append)
  also have "\<dots> = placeholders q + sum_list (map placeholders cs)"
    by (simp only: placeholders_join placeholders_of_texts add_0)
  finally show ?thesis using False by (simp only: add_where_def if_True simp_thms)
qed

lemma sql_holds_simps:
  "sql_holds ''city = ?'' (SText x) r = (city r = x)"
  "sql_holds ''state = ?'' (SText x) r = (state r = x)"
  "sql_holds ''beds >= ?'' (SInt n) r = (n \<le> beds r)"
  "sql_holds ''price <= ?'' (SInt n) r = (price r \<le> n)"
  "sql_holds ''beds = ?'' (SInt n) r = (beds r = n)"
  by (simp_all add: sql_holds_def sql_eq_def sql_le_def sql_num_def)

lemma query_listings_filter:
  "query_listings tbl c s mb mp = filter (listing_matches c s mb mp) tbl"
  by (cases c; cases s; cases mb; cases mp)
     (auto simp: query_listings_def query_listings_filters_def add_str_filter_def
        add_int_filter_def select_where_def listing_matches_def sql_holds_simps
        intro!: filter_cong)


text \<open>
  The call for one named table: the statement that reaches the engine, and what becomes
  of its answer.
\<close>

lemma describe_one_table:
  "t \<noteq> [] \<Longrightarrow> describe_columns conn (Some t) =
     (case execute_fetchall conn (table_info_sql t) of
        Inl e \<Rightarrow> Inl e
      | Inr columns \<Rightarrow>
          Inr (''Column Descriptions:'' @ newline @ newline @ ''Table: '' @ t @ newline @
               concat (map column_description columns)))"
  by (simp add: describe_columns_def split: sum.splits)

lemma column_description_nonempty: "column_description col \<noteq> []"
  by (simp add: column_description_def)

section \<open>C1: one predicate per filter field\<close>

text \<open>
  C1, as the specification words it, fails: \<open>min_beds = 0\<close> is supplied, yet the query
  that \<open>query_listings\<close> builds is the unconditioned one, with no predicate and no
  parameter, while one field counts as supplied.
\<close>

theorem supplied_zero_counterexample:
  "query_listings_sql None None (Some 0) None = (''SELECT * FROM Sacramento'', [])
   \<and> length (fst (query_listings_filters None None (Some 0) None)) \<noteq>
       spec_supplied (None :: string option) + spec_supplied (None :: string option) +
       spec_supplied (Some (0::int)) + spec_supplied (None :: int option)"
  by (simp add: query_listings_sql_def query_listings_filters_def add_str_filter_def
      add_int_filter_def add_where_def spec_supplied_def)

text \<open>
  C1, amended: for every combination of arguments of \<open>query_listings\<close> and of
  \<open>calculate_average_price\<close>, the number of conditions, the number of bound parameters
  and the number of placeholders in the query text all equal the number of arguments
  that Python takes as true (supplied, and neither the empty string nor zero); the text
  is the bare \<open>SELECT\<close> when that number is zero, and otherwise the \<open>SELECT\<close> followed by
  \<open>WHERE\<close> and the predicates of exactly those fields, in source order, joined by
  \<open>AND\<close>.
\<close>

theorem one_predicate_per_truthy_filter:
  "length (fst (query_listings_filters c s mb mp)) =
     truthy_count [truthy_str c, truthy_str s, truthy_int mb, truthy_int mp]
   \<and> length (snd (query_listings_sql c s mb mp)) =
     truthy_count [truthy_str c, truthy_str s, truthy_int mb, truthy_int mp]
   \<and> placeholders (fst (query_listings_sql c s mb mp)) =
     truthy_count [truthy_str c, truthy_str s, truthy_int mb, truthy_int mp]
   \<and> fst (query_listings_sql c s mb mp) =
     ''SELECT * FROM Sacramento'' @
     (if truthy_count [truthy_str c, truthy_str s, truthy_int mb, truthy_int mp] = 0 then []
      else '' WHERE '' @ join_str '' AND ''
        ((if truthy_str c then [''city = ?''] else []) @
         (if truthy_str s then [''state = ?''] else []) @
         (if truthy_int mb then [''beds >= ?''] else []) @
         (if truthy_int mp then [''price <= ?''] else [])))
   \<and> length (fst (calculate_average_price_filters c s b)) =
     truthy_count [truthy_str c, truthy_str s, truthy_int b]
   \<and> length (snd (calculate_average_price_sql c s b)) =
     truthy_count [truthy_str c, truthy_str s, truthy_int b]
   \<and> placeholders (fst (calculate_average_price_sql c s b)) =
     truthy_count [truthy_str c, truthy_str s, truthy_int b]
   \<and> fst (calculate_average_price_sql c s b) =
     ''SELECT AVG(price) as avg_price, COUNT(*) as total_listings FROM Sacramento'' @
     (if truthy_count [truthy_str c, truthy_str s, truthy_int b] = 0 then []
      else '' WHERE '' @ join_str '' AND ''
        ((if truthy_str c then [''city = ?''] else []) @
         (if truthy_str s then [''state = ?''] else []) @
         (if truthy_int b then [''beds = ?''] else [])))"
proof -
  have 1: "length (fst (query_listings_filters c s mb mp)) =
     truthy_count [truthy_str c, truthy_str s, truthy_int mb, truthy_int mp]"
    by (simp add: query_listings_conditions truthy_count_def)
  have 2: "length (snd (query_listings_sql c s mb mp)) =
     truthy_count [truthy_str c, truthy_str s, truthy_int mb, truthy_int mp]"
    by (simp add: query_listings_sql_def Let_def query_listings_params truthy_count_def)
  have 3: "placeholders (fst (query_listings_sql c s mb mp)) =
     truthy_count [truthy_str c, truthy_str s, truthy_int mb, truthy_int mp]"
    by (simp add: query_listings_sql_def Let_def placeholders_add_where
        query_listings_conditions placeholders_of_texts truthy_count_def)
  have 4: "fst (query_listings_sql c s mb mp) =
     ''SELECT * FROM Sacramento'' @
     (if truthy_count [truthy_str c, truthy_str s, truthy_int mb, truthy_int mp] = 0 then []
      else '' WHERE '' @ join_str '' AND ''
        ((if truthy_str c then [''city = ?''] else []) @
         (if truthy_str s then [''state = ?''] else []) @
         (if truthy_int mb then [''beds >= ?''] else []) @
         (if truthy_int mp then [''price <= ?''] else [])))"
    unfolding query_listings_sql_def Let_def fst_conv add_where_def query_listings_conditions
      truthy_count_def
    by (cases "truthy_str c"; cases "truthy_str s"; cases "truthy_int mb";
        cases "truthy_int mp") simp_all
  have 5: "length (fst (calculate_average_price_filters c s b)) =
     truthy_count [truthy_str c, truthy_str s, truthy_int b]"
    by (simp add: average_price_conditions truthy_count_def)
  have 6: "length (snd (calculate_average_price_sql c s b)) =
     truthy_count [truthy_str c, truthy_str s, truthy_int b]"
    by (simp add: calculate_average_price_sql_def Let_def average_price_params truthy_count_def)
  have 7: "placeholders (fst (calculate_average_price_sql c s b)) =
     truthy_count [truthy_str c, truthy_str s, truthy_int b]"
    by (simp add: calculate_average_price_sql_def Let_def placeholders_add_where
        average_price_conditions placeholders_of_texts truthy_count_def)
  have 8: "fst (calculate_average_price_sql c s b) =
     ''SELECT AVG(price) as avg_price, COUNT(*) as total_listings FROM Sacramento'' @
     (if truthy_count [truthy_str c, truthy_str s, truthy_int b] = 0 then []
      else '' WHERE '' @ join_str '' AND ''
        ((if truthy_str c then [''city = ?''] else []) @
         (if truthy_str s then [''state = ?''] else []) @
         (if truthy_int b then [''beds = ?''] else [])))"
    unfolding calculate_average_price_sql_def Let_def fst_conv add_where_def
      average_price_conditions truthy_count_def
    by (cases "truthy_str c"; cases "truthy_str s"; cases "truthy_int b") simp_all
  from 1 2 3 4 5 6 7 8 show ?thesis by blast
qed

section \<open>C2: the rows that query\_listings returns\<close>

text \<open>
  C2, as the specification words it, fails: with the filters \<open>city = "Sacramento"\<close> and
  \<open>max_price = 0\<close> both supplied, \<open>query_listings\<close> returns the whole fixture, although
  the price of its first row is not at most 0.
\<close>

theorem zero_price_cap_counterexample:
  "query_listings example_table (Some ''Sacramento'') None None (Some 0) = example_table
   \<and> \<not> price (hd example_table) \<le> 0"
  by (simp add: query_listings_filter listing_matches_def example_table_def)

text \<open>
  C2, amended: with no filter \<open>query_listings\<close> returns every row of the table; with a
  \<open>min_beds\<close> other than zero it returns only rows with at least that many beds; in
  general it returns, in table order, exactly the rows of which the conjunction of those
  filters holds that are supplied with a non-empty string or a non-zero number; and the
  filter of the example, on a table of a 3-bed Sacramento row at 480000 and a 4-bed
  Sacramento row at 520000, returns exactly the first row.
\<close>

theorem query_listings_rows:
  "query_listings tbl None None None None = tbl
   \<and> (mb \<noteq> 0 \<longrightarrow> (\<forall>r \<in> set (query_listings tbl c s (Some mb) mp). mb \<le> beds r))
   \<and> query_listings tbl c s mbo mp = filter (listing_matches c s mbo mp) tbl
   \<and> (city r1 = ''Sacramento'' \<and> beds r1 = 3 \<and> price r1 = 480000 \<and>
      city r2 = ''Sacramento'' \<and> beds r2 = 4 \<and> price r2 = 520000 \<longrightarrow>
      query_listings [r1, r2] (Some ''Sacramento'') None (Some 3) (Some 500000) = [r1])"
proof -
  have all: "query_listings tbl None None None None = tbl"
    by (simp add: query_listings_filter listing_matches_def)
  have beds: "mb \<noteq> 0 \<longrightarrow> (\<forall>r \<in> set (query_listings tbl c s (Some mb) mp). mb \<le> beds r)"
    by (simp add: query_listings_filter listing_matches_def)
  have example: "city r1 = ''Sacramento'' \<and> beds r1 = 3 \<and> price r1 = 480000 \<and>
      city r2 = ''Sacramento'' \<and> beds r2 = 4 \<and> price r2 = 520000 \<longrightarrow>
      query_listings [r1, r2] (Some ''Sacramento'') None (Some 3) (Some 500000) = [r1]"
    by (simp add: query_listings_filter listing_matches_def)
  from all beds example query_listings_filter show ?thesis by blast
qed

text \<open>
  Witness of C2: the example on the fixture, and \<open>min_beds = 4\<close> on the same table.
\<close>

theorem query_listings_rows_witness:
  "query_listings example_table (Some ''Sacramento'') None (Some 3) (Some 500000) =
     [hd example_table]
   \<and> (4::int) \<noteq> 0
   \<and> query_listings example_table None None (Some 4) None = [last example_table]
   \<and> 4 \<le> beds (last example_table)"
  using query_listings_rows [where tbl = example_table and mb = 4 and c = None and s = None
      and mp = None and mbo = "Some 4" and ?r1.0 = "hd example_table"
      and ?r2.0 = "last example_table"]
  by (simp add: example_table_def listing_matches_def)

section \<open>C4: at most ten rows, in ascending order of price\<close>

lemma sorted_order_by_price_limit:
  "sorted (map (\<lambda>d. price (fst d)) (order_by_price_limit ds))"
  unfolding order_by_price_limit_def take_map [symmetric]
  by (rule sorted_wrt_take) simp

lemma length_order_by_price_limit: "length (order_by_price_limit ds) \<le> 10"
  by (simp add: order_by_price_limit_def)

lemma find_best_deals_ordered:
  "\<exists>ds. find_best_deals tbl mp mb md la lo = order_by_price_limit ds"
  unfolding find_best_deals_def Let_def by blast

lemma find_best_deals_example:
  "find_best_deals example_table 600000 2 5 None None = map (\<lambda>r. (r, None)) example_table"
  by (simp add: find_best_deals_def Let_def select_simple_deals_def sql_holds_simps
      example_table_def order_by_price_limit_def)

text \<open>
  C4: whatever the arguments of \<open>find_best_deals\<close>, with or without a reference point,
  and whatever the table holds, the result has at most 10 rows and its prices ascend.
\<close>

theorem find_best_deals_at_most_ten_sorted:
  "length (find_best_deals tbl mp mb md la lo) \<le> 10
   \<and> sorted (map (\<lambda>d. price (fst d)) (find_best_deals tbl mp mb md la lo))"
proof -
  obtain ds where "find_best_deals tbl mp mb md la lo = order_by_price_limit ds"
    using find_best_deals_ordered by blast
  then show ?thesis
    by (simp only: sorted_order_by_price_limit length_order_by_price_limit simp_thms)
qed

section \<open>C6: a reference point with one coordinate missing\<close>

text \<open>
  C6: when exactly one of \<open>reference_lat\<close> and \<open>reference_lon\<close> is supplied,
  \<open>find_best_deals\<close> sends the same text and parameters, and returns the same rows, as
  the call with neither.
\<close>

theorem partial_reference_point_ignored:
  "(la = None \<and> lo \<noteq> None) \<or> (la \<noteq> None \<and> lo = None) \<Longrightarrow>
   find_best_deals tbl mp mb md la lo = find_best_deals tbl mp mb md None None
   \<and> find_best_deals_sql mp mb md la lo = find_best_deals_sql mp mb md None None"
  by (auto simp: find_best_deals_def find_best_deals_sql_def Let_def)

text \<open>Witness of C6: only the latitude of Sacramento is supplied.\<close>

theorem partial_reference_point_ignored_witness:
  "((Some (38.58::real) = None \<and> (None :: real option) \<noteq> None) \<or>
    (Some (38.58::real) \<noteq> None \<and> (None :: real option) = None))
   \<and> find_best_deals example_table 600000 2 5 (Some 38.58) None =
       map (\<lambda>r. (r, None)) example_table"
  using partial_reference_point_ignored [of "Some 38.58" None example_table 600000 2 5]
  by (simp add: find_best_deals_example)

section \<open>C10: a reference coordinate equal to zero\<close>

text \<open>
  C10: when both coordinates are supplied and the latitude or the longitude is \<open>0.0\<close>,
  \<open>find_best_deals\<close> sends the same text and parameters, and returns the same rows, as
  the call with no reference point: no distance is computed and no row is dropped for
  its distance.
\<close>

theorem zero_coordinate_ignored:
  "la = 0 \<or> lo = 0 \<Longrightarrow>
   find_best_deals tbl mp mb md (Some la) (Some lo) = find_best_deals tbl mp mb md None None
   \<and> find_best_deals_sql mp mb md (Some la) (Some lo) =
       find_best_deals_sql mp mb md None None"
  by (auto simp: find_best_deals_def find_best_deals_sql_def Let_def)

text \<open>Witness of C10: a reference point on the equator.\<close>

theorem zero_coordinate_ignored_witness:
  "((0::real) = 0 \<or> (-121.49::real) = 0)
   \<and> find_best_deals example_table 600000 2 5 (Some 0) (Some (-121.49)) =
       map (\<lambda>r. (r, None)) example_table"
  using zero_coordinate_ignored [of 0 "-121.49" example_table 600000 2 5]
  by (simp add: find_best_deals_example)

section \<open>C5: the distance filter\<close>

subsection \<open>The distance column is the great-circle distance\<close>

lemma sin_half_squared: "(sin (x / 2))\<^sup>2 = (1 - cos x) / (2::real)"
  using cos_double_sin [of "x / 2"] by simp

lemma haversine_algebra:
  fixes A B C :: real
  shows "1 - 2 * ((1 - A) / 2 + C * ((1 - B) / 2)) = A - C + C * B"
  by (simp add: field_simps)

lemma haversine_argument:
  fixes p1 p2 l1 l2 :: real
  shows "1 - 2 * ((sin ((p2 - p1) / 2))\<^sup>2 + cos p1 * cos p2 * (sin ((l2 - l1) / 2))\<^sup>2) =
         cos p1 * cos p2 * cos (l2 - l1) + sin p1 * sin p2"
proof -
  have "1 - 2 * ((sin ((p2 - p1) / 2))\<^sup>2 + cos p1 * cos p2 * (sin ((l2 - l1) / 2))\<^sup>2) =
        cos (p2 - p1) - cos p1 * cos p2 + cos p1 * cos p2 * cos (l2 - l1)"
    unfolding sin_half_squared by (rule haversine_algebra)
  also have "cos (p2 - p1) = cos p1 * cos p2 + sin p1 * sin p2"
    by (simp add: cos_diff mult.commute)
  finally show ?thesis by simp
qed

lemma arccos_haversine:
  fixes h :: real
  assumes "0 \<le> h" "h \<le> 1"
  shows "arccos (1 - 2 * h) = 2 * arcsin (sqrt h)"
proof -
  let ?t = "arcsin (sqrt h)"
  have s: "0 \<le> sqrt h" "sqrt h \<le> 1" using assms by simp_all
  have t0: "0 \<le> ?t" using s by (intro arcsin_nonneg) simp
  have t1: "?t \<le> pi / 2" using s by (intro arcsin_ubound) linarith+
  have "sin ?t = sqrt h" using s by (intro sin_arcsin) linarith+
  then have "cos (2 * ?t) = 1 - 2 * h"
    using assms by (simp add: cos_double_sin)
  then have "arccos (1 - 2 * h) = arccos (cos (2 * ?t))" by simp
  also have "\<dots> = 2 * ?t" using t0 t1 by (intro arccos_cos) linarith+
  finally show ?thesis .
qed

lemma radians_bounds:
  "- 90 \<le> x \<Longrightarrow> - (pi / 2) \<le> radians x"
  "x \<le> 90 \<Longrightarrow> radians x \<le> pi / 2"
  using mult_right_mono [of "- 90" x pi] mult_right_mono [of x 90 pi]
  by (simp_all add: radians_def)

text \<open>
  For latitudes between -90 and 90 degrees the expression of the source, which is the
  spherical law of cosines, read over the reals, is never \<open>NULL\<close> and has the value
  of the haversine formula. This is a fact of the two formulas, not of the engine's
  doubles.
\<close>

lemma distance_column_is_haversine:
  assumes "- 90 \<le> la" "la \<le> 90" "- 90 \<le> latitude r" "latitude r \<le> 90"
  shows "distance_column la lo la r =
    Some (haversine_distance la lo (latitude r) (longitude r))"
proof -
  define p1 p2 d where "p1 = radians la" and "p2 = radians (latitude r)"
    and "d = radians (longitude r) - radians lo"
  define c where "c = cos p1 * cos p2"
  define h where "h = (sin ((p2 - p1) / 2))\<^sup>2 + c * (sin (d / 2))\<^sup>2"
  define x where "x = c * cos d + sin p1 * sin p2"
  have c0: "0 \<le> c"
    unfolding c_def p1_def p2_def using assms
    by (intro mult_nonneg_nonneg cos_ge_zero radians_bounds)
  have x: "x = 1 - 2 * h"
    unfolding x_def h_def c_def d_def by (rule haversine_argument [symmetric])
  have h0: "0 \<le> h" unfolding h_def using c0 by simp
  have "- c \<le> c * cos d"
    using c0 mult_left_mono [of "- 1" "cos d" c] by simp
  moreover have "- c + sin p1 * sin p2 = - cos (p1 + p2)"
    by (simp add: cos_add c_def)
  moreover have "- 1 \<le> - cos (p1 + p2)" by simp
  ultimately have xb: "- 1 \<le> x" unfolding x_def by linarith
  have h1: "h \<le> 1" using xb x by linarith
  have xu: "x \<le> 1" using h0 x by linarith
  have "arccos x = 2 * arcsin (sqrt h)"
    unfolding x using h0 h1 by (rule arccos_haversine)
  then have "distance_column la lo la r = Some (6371 * (2 * arcsin (sqrt h)))"
    using xb xu
    by (simp add: distance_column_def sql_acos_def x_def c_def p1_def p2_def d_def)
  then show ?thesis
    by (simp add: haversine_distance_def h_def c_def p1_def p2_def d_def)
qed

subsection \<open>The query with a reference point, and the example of the specification\<close>

lemma find_best_deals_with_reference:
  "la \<noteq> 0 \<Longrightarrow> lo \<noteq> 0 \<Longrightarrow>
   find_best_deals tbl mp mb md (Some la) (Some lo) =
     take 10 (sort_key (\<lambda>d. price (fst d))
       (filter (\<lambda>d. case snd d of None \<Rightarrow> False | Some x \<Rightarrow> x \<le> md)
         (map (\<lambda>r. (r, distance_column la lo la r))
           (filter (\<lambda>r. price r \<le> mp \<and> mb \<le> beds r) tbl))))"
  by (simp add: find_best_deals_def Let_def select_distance_deals_def
      order_by_price_limit_def sql_holds_simps)

lemma same_meridian_distance:
  assumes "longitude r = lo" "\<bar>radians (latitude r) - radians la\<bar> \<le> pi"
  shows "distance_column la lo la r = Some (6371 * \<bar>radians (latitude r) - radians la\<bar>)"
proof -
  have "cos (radians la) * cos (radians (latitude r)) *
          cos (radians (longitude r) - radians lo) +
        sin (radians la) * sin (radians (latitude r)) =
        cos (radians (latitude r) - radians la)"
    using assms(1) by (simp add: cos_diff mult.commute)
  moreover have "arccos (cos (radians (latitude r) - radians la)) =
      \<bar>radians (latitude r) - radians la\<bar>"
    using assms(2) by (rule arccos_cos_eq_abs)
  ultimately show ?thesis
    by (simp add: distance_column_def sql_acos_def)
qed

lemma near_distance: "distance_column 38.58 (-121.49) 38.58 near_listing = Some 3.218688"
proof -
  have d: "radians (latitude near_listing) - radians 38.58 = 3.218688 / 6371"
    by (simp add: radians_def near_listing_def field_simps)
  have "(3.218688 / 6371 :: real) \<le> pi" using pi_ge_two by simp
  then have "\<bar>radians (latitude near_listing) - radians 38.58\<bar> \<le> pi"
    unfolding d by simp
  then have "distance_column 38.58 (-121.49) 38.58 near_listing =
      Some (6371 * \<bar>radians (latitude near_listing) - radians 38.58\<bar>)"
    by (intro same_meridian_distance) (simp add: near_listing_def)
  then show ?thesis unfolding d by simp
qed

lemma far_distance: "distance_column 38.58 (-121.49) 38.58 far_listing = Some 32.18688"
proof -
  have d: "radians (latitude far_listing) - radians 38.58 = 32.18688 / 6371"
    by (simp add: radians_def far_listing_def field_simps)
  have "(32.18688 / 6371 :: real) \<le> pi" using pi_ge_two by simp
  then have "\<bar>radians (latitude far_listing) - radians 38.58\<bar> \<le> pi"
    unfolding d by simp
  then have "distance_column 38.58 (-121.49) 38.58 far_listing =
      Some (6371 * \<bar>radians (latitude far_listing) - radians 38.58\<bar>)"
    by (intro same_meridian_distance) (simp add: far_listing_def)
  then show ?thesis unfolding d by simp
qed

text \<open>
  With a reference point of two non-zero coordinates the example of the specification
  comes out as it says: only the listing two miles away is returned.
\<close>

lemma specification_example:
  "find_best_deals [near_listing, far_listing] 600000 2 5 (Some 38.58) (Some (-121.49)) =
     [(near_listing, Some 3.218688)]"
proof -
  have a: "filter (\<lambda>r. price r \<le> 600000 \<and> 2 \<le> beds r) [near_listing, far_listing] =
      [near_listing, far_listing]"
    by (simp add: near_listing_def far_listing_def)
  have b: "map (\<lambda>r. (r, distance_column 38.58 (-121.49) 38.58 r))
        [near_listing, far_listing] =
      [(near_listing, Some 3.218688), (far_listing, Some 32.18688)]"
    by (simp only: list.map near_distance far_distance)
  have "find_best_deals [near_listing, far_listing] 600000 2 5 (Some 38.58)
        (Some (-121.49)) =
     take 10 (sort_key (\<lambda>d. price (fst d))
       (filter (\<lambda>d. case snd d of None \<Rightarrow> False | Some x \<Rightarrow> x \<le> 5)
         (map (\<lambda>r. (r, distance_column 38.58 (-121.49) 38.58 r))
           (filter (\<lambda>r. price r \<le> 600000 \<and> 2 \<le> beds r)
              [near_listing, far_listing]))))"
    by (rule find_best_deals_with_reference) simp_all
  also have "\<dots> = [(near_listing, Some 3.218688)]"
    unfolding a b by simp
  finally show ?thesis .
qed

subsection \<open>A reference point on the equator\<close>

text \<open>
  The distance column of a listing in Sacramento, seen from the point on the equator that
  has the same longitude: both points lie on one meridian, so the expression of the
  source reduces to \<open>6371\<close> times the difference of the latitudes in radians.
\<close>

lemma distance_from_equator:
  "distance_column 0 (-121.49) 0 sacramento_listing = Some (6371 * (38.58 * pi / 180))"
proof -
  have a: "arccos (cos (643 * pi / 3000)) = 643 * pi / 3000"
    by (rule arccos_cos) simp_all
  show ?thesis
    by (simp add: distance_column_def sacramento_listing_def radians_def sql_acos_def a)
qed

lemma beyond_max_distance: "(10::real) < 6371 * (38.58 * pi / 180)"
  using pi_ge_two by simp

text \<open>
  C5 at a reference point that is supplied in full, latitude \<open>0.0\<close> and longitude
  \<open>-121.49\<close>, with the default \<open>max_distance\<close> of 10: the listing lies more than
  4000 units away, and \<open>find_best_deals\<close> returns it all the same, with no distance
  column, because the test of line 229 fails on a latitude of \<open>0.0\<close>.
\<close>

theorem equator_reference_skips_distance:
  "find_best_deals [sacramento_listing] 500000 3 10 (Some 0) (Some (-121.49)) =
     [(sacramento_listing, None)]
   \<and> distance_column 0 (-121.49) 0 sacramento_listing = Some (6371 * (38.58 * pi / 180))
   \<and> (10::real) < 6371 * (38.58 * pi / 180)"
proof -
  have "find_best_deals [sacramento_listing] 500000 3 10 (Some 0) (Some (-121.49)) =
     [(sacramento_listing, None)]"
    by (simp add: find_best_deals_def Let_def select_simple_deals_def sql_holds_simps
        order_by_price_limit_def sacramento_listing_def)
  then show ?thesis using distance_from_equator beyond_max_distance by blast
qed

section \<open>C7: the result of calculate\_average\_price\<close>




section \<open>C8: describe\_columns on an unknown table and on an empty table\<close>

lemma pragma_identifier_table_info:
  "pragma_identifier (table_info_sql t) = (if plain_identifier t then Some t else None)"
proof -
  have "take (length (table_info_sql t) - 20) (drop 18 (table_info_sql t)) = t"
    by (simp add: table_info_sql_def)
  then show ?thesis by (simp add: pragma_identifier_def Let_def)
qed

lemma plain_identifier_nonempty: "plain_identifier t \<Longrightarrow> t \<noteq> []"
  by (cases t) (simp_all add: plain_identifier_def)

lemma table_info_answer:
  "plain_identifier t \<Longrightarrow>
   execute_fetchall (get_db_connection db) (table_info_sql t) =
     Inr (case lookup_table (db_catalog db) t of None \<Rightarrow> [] | Some entry \<Rightarrow> snd entry)"
  by (simp add: get_db_connection_def pragma_identifier_table_info)

lemma plain_identifier_examples:
  "plain_identifier ''Houses''" "plain_identifier ''Listings''"
  "plain_identifier ''Sacramento''"
  by (simp_all add: plain_identifier_def identifier_start_def identifier_char_def
      ascii_upper_letters_def ascii_lower_letters_def ascii_digits_def ascii_lower_def
      has_prefix_def sqlite_keywords_def)

lemma lookup_table_examples:
  "lookup_table (db_catalog empty_database) ''Houses'' = None"
  "lookup_table (db_catalog empty_database) ''Listings'' = None"
  "lookup_table (db_catalog empty_database) ''Sacramento'' =
     Some (''Sacramento'', [price_column])"
  by (simp_all add: lookup_table_def empty_database_def ascii_lower_def
      ascii_upper_letters_def ascii_lower_letters_def)

text \<open>
  C8, as the specification words it, fails: \<open>Houses\<close> is not a table of the database,
  and \<open>describe_columns\<close> returns a description, with a heading for \<open>Houses\<close> and no
  column, and not an error.
\<close>

theorem unknown_table_counterexample:
  "describe_columns (get_db_connection empty_database) (Some ''Houses'') =
     Inr (''Column Descriptions:'' @ newline @ newline @ ''Table: Houses'' @ newline)"
  by (simp add: describe_one_table table_info_answer plain_identifier_examples
      lookup_table_examples)

text \<open>
  C8, amended: called with a plain identifier (ASCII letters, digits and underscores, not
  starting with a digit, no SQL keyword, not in the name spaces \<open>sqlite_\<close> and
  \<open>pragma_\<close>) that names nothing in the catalog, names being compared without regard to
  letter case, \<open>describe_columns\<close> does not fail: it returns a description that holds
  the heading and the line of that name, and no column. Called with such an identifier
  that names a table of the catalog with zero rows, it succeeds and returns the
  non-empty column list of that table.
\<close>

theorem describe_columns_unknown_and_empty_table:
  "plain_identifier t \<Longrightarrow>
   (lookup_table (db_catalog db) t = None \<longrightarrow>
      describe_columns (get_db_connection db) (Some t) =
        Inr (''Column Descriptions:'' @ newline @ newline @ ''Table: '' @ t @ newline))
   \<and> (lookup_table (db_catalog db) t = Some (n, cols) \<and> cols \<noteq> [] \<and> db_rows db n = [] \<longrightarrow>
      describe_columns (get_db_connection db) (Some t) =
        Inr (''Column Descriptions:'' @ newline @ newline @ ''Table: '' @ t @ newline @
             concat (map column_description cols))
      \<and> concat (map column_description cols) \<noteq> [])"
proof -
  assume p: "plain_identifier t"
  then have t: "t \<noteq> []" by (rule plain_identifier_nonempty)
  have unknown: "lookup_table (db_catalog db) t = None \<longrightarrow>
      describe_columns (get_db_connection db) (Some t) =
        Inr (''Column Descriptions:'' @ newline @ newline @ ''Table: '' @ t @ newline)"
    using t p by (simp add: describe_one_table table_info_answer)
  have known: "lookup_table (db_catalog db) t = Some (n, cols) \<longrightarrow>
      describe_columns (get_db_connection db) (Some t) =
        Inr (''Column Descriptions:'' @ newline @ newline @ ''Table: '' @ t @ newline @
             concat (map column_description cols))"
    using t p by (simp add: describe_one_table table_info_answer)
  have nonempty: "cols \<noteq> [] \<longrightarrow> concat (map column_description cols) \<noteq> []"
    by (cases cols) (simp_all add: column_description_nonempty)
  from unknown known nonempty show ?thesis by blast
qed

text \<open>
  Witness of C8: on the database whose table \<open>Sacramento\<close> has one column and no rows,
  the unknown name \<open>Listings\<close> and the name \<open>Sacramento\<close>.
\<close>

theorem describe_columns_unknown_and_empty_table_witness:
  "plain_identifier ''Listings''
   \<and> lookup_table (db_catalog empty_database) ''Listings'' = None
   \<and> describe_columns (get_db_connection empty_database) (Some ''Listings'') =
     Inr (''Column Descriptions:'' @ newline @ newline @ ''Table: Listings'' @ newline)
   \<and> plain_identifier ''Sacramento''
   \<and> lookup_table (db_catalog empty_database) ''Sacramento'' =
       Some (''Sacramento'', [price_column])
   \<and> db_rows empty_database ''Sacramento'' = []
   \<and> describe_columns (get_db_connection empty_database) (Some ''Sacramento'') =
     Inr (''Column Descriptions:'' @ newline @ newline @ ''Table: Sacramento'' @ newline @
          ''  - price (INTEGER)'' @ newline @ ''    Nullable: Yes'' @ newline @
          ''    Default Value: None'' @ newline @ ''    Primary Key: No'' @ newline)"
proof -
  have rows: "db_rows empty_database ''Sacramento'' = []"
    by (simp add: empty_database_def)
  have "describe_columns (get_db_connection empty_database) (Some ''Listings'') =
     Inr (''Column Descriptions:'' @ newline @ newline @ ''Table: '' @ ''Listings'' @
          newline)"
    using describe_columns_unknown_and_empty_table
      [of "''Listings''" empty_database "''Sacramento''" "[price_column]"]
      plain_identifier_examples(2) lookup_table_examples(2)
    by blast
  then have 1: "describe_columns (get_db_connection empty_database) (Some ''Listings'') =
     Inr (''Column Descriptions:'' @ newline @ newline @ ''Table: Listings'' @ newline)"
    by simp
  have 2: "describe_columns (get_db_connection empty_database) (Some ''Sacramento'') =
     Inr (''Column Descriptions:'' @ newline @ newline @ ''Table: '' @ ''Sacramento'' @
          newline @ concat (map column_description [price_column]))"
    using describe_columns_unknown_and_empty_table
      [of "''Sacramento''" empty_database "''Sacramento''" "[price_column]"]
      plain_identifier_examples(3) lookup_table_examples(3) rows
    by blast
  have 3: "describe_columns (get_db_connection empty_database) (Some ''Sacramento'') =
     Inr (''Column Descriptions:'' @ newline @ newline @ ''Table: Sacramento'' @ newline @
          ''  - price (INTEGER)'' @ newline @ ''    Nullable: Yes'' @ newline @
          ''    Default Value: None'' @ newline @ ''    Primary Key: No'' @ newline)"
    unfolding 2 by (simp add: column_description_def price_column_def)
  from plain_identifier_examples(2,3) lookup_table_examples(2,3) rows 1 3
  show ?thesis by blast
qed

section \<open>C9: what describe\_columns reports of a column\<close>

text \<open>
  C9 on the second column of a composite primary key, for which \<open>PRAGMA table_info\<close>
  gives \<open>pk = 2\<close>: the column is part of the primary key, and \<open>describe_columns\<close>
  writes \<open>Primary Key: No\<close>, since line 140 compares \<open>column[5]\<close> with \<open>1\<close>.
\<close>

theorem composite_key_column_reported_no:
  "column_description
     \<lparr>cid = 1, name = ''unit'', type = ''TEXT'', notnull = 1, dflt_value = None, pk = 2\<rparr> =
   ''  - unit (TEXT)'' @ newline @ ''    Nullable: No'' @ newline @
   ''    Default Value: None'' @ newline @ ''    Primary Key: No'' @ newline"
  by (simp add: column_description_def)

text \<open>What the entry of a column does report, whatever the column.\<close>

lemma column_description_parts:
  "column_description col =
     ''  - '' @ name col @ '' ('' @ type col @ '')'' @ newline @
     ''    Nullable: '' @ (if notnull col = 0 then ''Yes'' else ''No'') @ newline @
     ''    Default Value: '' @
       (if dflt_value col = None \<or> dflt_value col = Some [] then ''None''
        else the (dflt_value col)) @ newline @
     ''    Primary Key: '' @ (if pk col = 1 then ''Yes'' else ''No'') @ newline"
  by (cases "dflt_value col") (simp_all add: column_description_def)

section \<open>C3: input values in the query texts\<close>

text \<open>
  The texts of \<open>query_listings\<close>, \<open>calculate_average_price\<close> and \<open>find_best_deals\<close>
  do not depend on the values of the arguments, only on which of them Python takes as
  true: the values travel as bound parameters.
\<close>

lemma query_listings_text_fixed:
  "truthy_str c = truthy_str c' \<Longrightarrow> truthy_str s = truthy_str s' \<Longrightarrow>
   truthy_int mb = truthy_int mb' \<Longrightarrow> truthy_int mp = truthy_int mp' \<Longrightarrow>
   fst (query_listings_sql c s mb mp) = fst (query_listings_sql c' s' mb' mp')"
  by (simp add: query_listings_sql_def Let_def query_listings_conditions)

lemma calculate_average_price_text_fixed:
  "truthy_str c = truthy_str c' \<Longrightarrow> truthy_str s = truthy_str s' \<Longrightarrow>
   truthy_int b = truthy_int b' \<Longrightarrow>
   fst (calculate_average_price_sql c s b) = fst (calculate_average_price_sql c' s' b')"
  by (simp add: calculate_average_price_sql_def Let_def average_price_conditions)

lemma find_best_deals_text_fixed:
  "fst (find_best_deals_sql mp mb md la lo) =
     simple_deals_text @ '' ORDER BY price ASC LIMIT 10''
   \<or> fst (find_best_deals_sql mp mb md la lo) =
     distance_deals_text @ '' ORDER BY price ASC LIMIT 10''"
  by (simp add: find_best_deals_sql_def Let_def split: option.splits)

text \<open>
  \<open>get_database_schema\<close> takes no argument: the names it writes into its statements
  are those that the catalog returns. On the database of one table:
\<close>

lemma get_database_schema_example:
  "get_database_schema (get_db_connection empty_database) =
     Inr (''Database Schema:'' @ newline @ newline @ ''Table: Sacramento'' @ newline @
          ''  price (INTEGER)'' @ newline)"
proof -
  have "master_tables (get_db_connection empty_database) = [''Sacramento'']"
    by (simp add: get_db_connection_def empty_database_def)
  then show ?thesis
    by (simp add: get_database_schema_def table_info_answer plain_identifier_examples
        lookup_table_examples schema_column_def price_column_def)
qed

text \<open>
  C3 on \<open>describe_columns\<close> with the table name \<open>Sacramento) --\<close>: the name is written
  into the statement text, where its parenthesis closes the call and its dashes open a
  comment, and the engine is given that text with no parameter.
\<close>

theorem table_name_interpolated:
  "describe_columns conn (Some ''Sacramento) --'') =
     (case execute_fetchall conn ''PRAGMA table_info(Sacramento) --);'' of
        Inl e \<Rightarrow> Inl e
      | Inr columns \<Rightarrow>
          Inr (''Column Descriptions:'' @ newline @ newline @
               ''Table: Sacramento) --'' @ newline @
               concat (map column_description columns)))"
  using describe_one_table [of "''Sacramento) --''" conn]
  by (simp add: table_info_sql_def split: sum.splits)

end
